theory Spec2Isabelle
  imports Complex_Main "HOL-Library.AList"
begin

section \<open>Characters and strings\<close>

text \<open>
  Python strings are modelled as \<open>string\<close> (lists of 8-bit characters). On code points
  below 256 the class \<open>\d\<close> of Python's \<open>re\<close> is exactly the ten ASCII digits.
\<close>

abbreviation ESC :: char where "ESC \<equiv> CHR 0x1B"
abbreviation BEL :: char where "BEL \<equiv> CHR 0x07"
abbreviation ETB :: char where "ETB \<equiv> CHR 0x17"
abbreviation CAN :: char where "CAN \<equiv> CHR 0x18"
abbreviation FS :: char where "FS \<equiv> CHR 0x1C"
abbreviation CR :: char where "CR \<equiv> CHR 0x0D"
abbreviation ETX :: char where "ETX \<equiv> CHR 0x03"
abbreviation BSL :: char where "BSL \<equiv> CHR 0x5C"

definition digit :: "char set" where
  "digit = set ''0123456789''"

section \<open>Regular expressions of the output filter\<close>

text \<open>
  The patterns of \<open>_filter_output\<close> are sequences of literals, one-character classes
  (\<open>[hl]\<close>) and repeated classes (\<open>[\d;]+\<close>, \<open>\d+\<close>, \<open>[^\x07]*\<close>). \<open>lang\<close> is the set
  of texts a pattern denotes; \<open>match_re\<close> is the matcher of Python's \<open>re\<close> at one
  position: a repetition takes the longest run first and gives characters back one at a
  time while the rest of the pattern fails. It returns the length of the match.
\<close>

datatype atom = Lit string | OneOf "char set" | Many1 "char set" | Many0 "char set"

fun lang :: "atom list \<Rightarrow> string set" where
  "lang [] = {[]}"
| "lang (Lit w # as) = {w @ v | v. v \<in> lang as}"
| "lang (OneOf C # as) = {c # v | c v. c \<in> C \<and> v \<in> lang as}"
| "lang (Many1 C # as) = {u @ v | u v. u \<noteq> [] \<and> set u \<subseteq> C \<and> v \<in> lang as}"
| "lang (Many0 C # as) = {u @ v | u v. set u \<subseteq> C \<and> v \<in> lang as}"

definition occurs :: "atom list \<Rightarrow> string \<Rightarrow> bool" where
  "occurs pat s = (\<exists>u w v. s = u @ w @ v \<and> w \<in> lang pat)"

primrec greedy :: "nat \<Rightarrow> nat \<Rightarrow> (string \<Rightarrow> nat option) \<Rightarrow> string \<Rightarrow> nat option" where
  "greedy lo 0 k s = (if lo = 0 then k s else None)"
| "greedy lo (Suc n) k s =
     (if Suc n < lo then None
      else case k (drop (Suc n) s) of
             Some r \<Rightarrow> Some (Suc n + r)
           | None \<Rightarrow> greedy lo n k s)"

fun match_re :: "atom list \<Rightarrow> string \<Rightarrow> nat option" where
  "match_re [] s = Some 0"
| "match_re (Lit w # as) s =
     (if take (length w) s = w
      then map_option (\<lambda>r. length w + r) (match_re as (drop (length w) s))
      else None)"
| "match_re (OneOf C # as) s =
     (case s of
        [] \<Rightarrow> None
      | c # s' \<Rightarrow> if c \<in> C then map_option Suc (match_re as s') else None)"
| "match_re (Many1 C # as) s =
     greedy 1 (length (takeWhile (\<lambda>c. c \<in> C) s)) (\<lambda>t. match_re as t) s"
| "match_re (Many0 C # as) s =
     greedy 0 (length (takeWhile (\<lambda>c. c \<in> C) s)) (\<lambda>t. match_re as t) s"

text \<open>
  \<open>re.sub(pattern, '', s)\<close> and \<open>s.replace(old, '')\<close>: scan from the left; where the
  matcher succeeds the match is dropped and the scan goes on behind it, otherwise the
  character is kept. The counter is the number of characters of the current match that
  are still to be dropped. No pattern of the filter matches the empty text.
\<close>

fun sub_skip :: "(string \<Rightarrow> nat option) \<Rightarrow> nat \<Rightarrow> string \<Rightarrow> string" where
  "sub_skip m k [] = []"
| "sub_skip m (Suc k) (c # cs) = sub_skip m k cs"
| "sub_skip m 0 (c # cs) =
     (case m (c # cs) of
        Some n \<Rightarrow> sub_skip m (n - 1) cs
      | None \<Rightarrow> c # sub_skip m 0 cs)"

definition re_sub :: "atom list \<Rightarrow> string \<Rightarrow> string" where
  "re_sub pat s = sub_skip (match_re pat) 0 s"

definition match_literal :: "string \<Rightarrow> string \<Rightarrow> nat option" where
  "match_literal old s = (if take (length old) s = old then Some (length old) else None)"

definition replace_empty :: "string \<Rightarrow> string \<Rightarrow> string" where
  "replace_empty old s = sub_skip (match_literal old) 0 s"

subsection \<open>The patterns, in the order of the source\<close>

definition DA_pattern :: "atom list" where
  "DA_pattern = [Lit [ESC, CHR ''['', CHR ''?''], Many1 (digit \<union> {CHR '';''}), Lit ''c'']"

definition CPR_pattern :: "atom list" where
  "CPR_pattern = [Lit [ESC, CHR ''[''], Many1 digit, Lit '';'', Many1 digit, Lit ''R'']"

definition mode_pattern :: "string \<Rightarrow> atom list" where
  "mode_pattern ident = [Lit ([ESC, CHR ''['', CHR ''?''] @ ident), OneOf {CHR ''h'', CHR ''l''}]"

definition mode_ids :: "string list" where
  "mode_ids = [''2004'', ''1049'', ''1'', ''25'', ''1000'', ''1002'', ''1003'', ''1006'']"

definition OSC_BEL_pattern :: "atom list" where
  "OSC_BEL_pattern = [Lit [ESC, CHR '']''], Many0 (- {BEL}), Lit [BEL]]"

text \<open>
  The second OSC pattern is the raw string \<open>r'\x1b\][^\x1b]*\x1b\\\\'\<close>: its last four
  characters are two escaped backslashes, so it asks for ESC and two backslashes.
\<close>

definition OSC_ST_pattern :: "atom list" where
  "OSC_ST_pattern = [Lit [ESC, CHR '']''], Many0 (- {ESC}), Lit [ESC, BSL, BSL]]"

text \<open>
  The comment above the two OSC patterns gives their formats as \<open>ESC ] ... BEL\<close> and
  \<open>ESC ] ... ESC \\<close>. \<open>OSC_ST_intended\<close> is the second format as the comment words it,
  with one backslash; it is no part of the filter.
\<close>

definition OSC_ST_intended :: "atom list" where
  "OSC_ST_intended = [Lit [ESC, CHR '']''], Many0 (- {ESC}), Lit [ESC, BSL]]"

definition filter_output :: "string \<Rightarrow> string" where
  "filter_output data =
     (if data = [] then data
      else
        let filtered = data;
            filtered = replace_empty ''23;24;28;32;42c'' filtered;
            filtered = re_sub DA_pattern filtered;
            filtered = re_sub CPR_pattern filtered;
            filtered = re_sub (mode_pattern ''2004'') filtered;
            filtered = re_sub (mode_pattern ''1049'') filtered;
            filtered = re_sub (mode_pattern ''1'') filtered;
            filtered = re_sub (mode_pattern ''25'') filtered;
            filtered = re_sub (mode_pattern ''1000'') filtered;
            filtered = re_sub (mode_pattern ''1002'') filtered;
            filtered = re_sub (mode_pattern ''1003'') filtered;
            filtered = re_sub (mode_pattern ''1006'') filtered;
            filtered = re_sub [Lit [ESC, CHR ''['', CHR ''s'']] filtered;
            filtered = re_sub [Lit [ESC, CHR ''['', CHR ''u'']] filtered;
            filtered = re_sub [Lit [ESC, CHR ''7'']] filtered;
            filtered = re_sub [Lit [ESC, CHR ''8'']] filtered;
            filtered = re_sub OSC_BEL_pattern filtered;
            filtered = re_sub OSC_ST_pattern filtered;
            filtered = replace_empty [ETB] filtered;
            filtered = replace_empty [CAN] filtered;
            filtered = replace_empty [FS] filtered
        in filtered)"

section \<open>The pseudo-terminal driver and the session\<close>

text \<open>
  The driver (\<open>winpty.PTY\<close>) is external. Its handle is modelled by its geometry, the
  command spawned on it and the texts written to it. Whether creating the handle or
  spawning fails, and what each non-blocking read returns, is decided outside the
  program and is a parameter of the operations.
\<close>

record PTY =
  pty_cols :: int
  pty_rows :: int
  spawned :: "string option"
  written :: "string list"

definition PTY_init :: "int \<Rightarrow> int \<Rightarrow> PTY" where
  "PTY_init c r = \<lparr>pty_cols = c, pty_rows = r, spawned = None, written = []\<rparr>"

definition pty_spawn :: "string \<Rightarrow> PTY \<Rightarrow> PTY" where
  "pty_spawn cmd p = p\<lparr>spawned := Some cmd\<rparr>"

definition pty_write :: "string \<Rightarrow> PTY \<Rightarrow> PTY" where
  "pty_write s p = p\<lparr>written := written p @ [s]\<rparr>"

text \<open>
  What the calls of \<open>start\<close> that leave the program do: the debug \<open>print\<close> may raise
  (a standard output that is closed, or that cannot encode the shell command), the
  constructor of the driver may raise, and \<open>spawn\<close> may raise.
\<close>

datatype spawn_outcome = SpawnOk | DebugPrintFails | PtyInitFails | SpawnFails

text \<open>The \<open>print\<close> at the end of \<open>create_session\<close> returns or raises.\<close>

datatype print_outcome = Printed | PrintRaises

text \<open>
  One poll of the reader task: \<open>Data d ok\<close> is a read that returns \<open>d\<close> (empty when
  the terminal is idle), \<open>ok\<close> telling whether an append to the log file would succeed;
  \<open>ReadError\<close> is a read that raises.
\<close>

datatype read_event = Data string bool | ReadError

datatype error =
    AlreadyRunning   \<comment> \<open>\<open>RuntimeError("Terminal session already running")\<close>\<close>
  | NotStarted       \<comment> \<open>\<open>RuntimeError("Terminal session not started")\<close>\<close>
  | DriverError      \<comment> \<open>raised by the driver when the handle cannot be created or spawned\<close>
  | AttributeError   \<comment> \<open>a method called on \<open>self.process\<close> when it is \<open>None\<close>\<close>
  | ValueError       \<comment> \<open>\<open>time.sleep\<close> of a negative length\<close>
  | KeyError
  | StdoutError      \<comment> \<open>raised by \<open>print\<close>, e.g. \<open>UnicodeEncodeError\<close>\<close>

datatype 'a result = Raise error | Return 'a

text \<open>
  The session object. \<open>output_thread\<close> is \<open>None\<close> before the first start and
  \<open>Some b\<close> afterwards, \<open>b\<close> telling whether the reader thread is alive. \<open>log_sink\<close> is
  the text appended so far to the file at \<open>log_path\<close>.
\<close>

record terminal =
  cols :: int
  rows :: int
  shell_command :: string
  log_path :: "string option"
  process :: "PTY option"
  output_buffer :: "string list"
  running :: bool
  output_thread :: "bool option"
  log_sink :: string

definition maxlen :: nat where
  "maxlen = 10000"

definition truthy :: "string option \<Rightarrow> bool" where
  "truthy v = (case v of None \<Rightarrow> False | Some s \<Rightarrow> s \<noteq> [])"

text \<open>\<open>deque(maxlen=n).append(x)\<close>: the item is added on the right, and when the deque
  then holds more than \<open>n\<close> items the leftmost one is dropped.\<close>

definition deque_append :: "nat \<Rightarrow> 'a list \<Rightarrow> 'a \<Rightarrow> 'a list" where
  "deque_append n q x = (let q' = q @ [x] in if length q' > n then tl q' else q')"

definition TerminalAPI_init :: "int \<Rightarrow> int \<Rightarrow> string \<Rightarrow> string option \<Rightarrow> terminal" where
  "TerminalAPI_init c r cmd lp =
     \<lparr>cols = c, rows = r, shell_command = cmd, log_path = lp, process = None,
      output_buffer = [], running = False, output_thread = None, log_sink = []\<rparr>"

definition default_shell_command :: string where
  "default_shell_command = ''cmd.exe /c wsl -d kali-linux''"

text \<open>One iteration of \<open>_read_output_loop\<close>, run by the reader thread while it lives.\<close>

definition read_output_loop_iter :: "read_event \<Rightarrow> terminal \<Rightarrow> terminal" where
  "read_output_loop_iter ev t =
     (if output_thread t \<noteq> Some True then t
      else if \<not> running t then t\<lparr>output_thread := Some False\<rparr>
      else case process t of
        None \<Rightarrow> t\<lparr>output_thread := Some False\<rparr>
      | Some p \<Rightarrow>
          (case ev of
             ReadError \<Rightarrow> t\<lparr>output_thread := Some False\<rparr>
           | Data d log_ok \<Rightarrow>
               if d \<noteq> [] then
                 (let filtered_data = filter_output d in
                  if filtered_data \<noteq> [] then
                    (let t1 = t\<lparr>output_buffer :=
                                 deque_append maxlen (output_buffer t) filtered_data\<rparr>
                     in if truthy (log_path t1) \<and> log_ok
                        then t1\<lparr>log_sink := log_sink t1 @ filtered_data\<rparr>
                        else t1)
                  else t)
               else t))"

text \<open>A sleep of the caller is the time in which the reader thread makes its polls.\<close>

definition read_output_loop :: "read_event list \<Rightarrow> terminal \<Rightarrow> terminal" where
  "read_output_loop evs t = fold read_output_loop_iter evs t"

definition start :: "spawn_outcome \<Rightarrow> read_event list \<Rightarrow> terminal \<Rightarrow> unit result \<times> terminal" where
  "start outcome evs t =
     (if running t then (Raise AlreadyRunning, t)
      else case outcome of
        DebugPrintFails \<Rightarrow> (Raise StdoutError, t)
      | PtyInitFails \<Rightarrow> (Raise DriverError, t)
      | SpawnFails \<Rightarrow> (Raise DriverError, t\<lparr>process := Some (PTY_init (cols t) (rows t))\<rparr>)
      | SpawnOk \<Rightarrow>
          (let t1 = t\<lparr>process := Some (pty_spawn (shell_command t) (PTY_init (cols t) (rows t)))\<rparr>;
               t2 = t1\<lparr>running := True\<rparr>;
               t3 = t2\<lparr>output_thread := Some True\<rparr>
           in (Return (), read_output_loop evs t3)))"

definition write_text :: "string \<Rightarrow> terminal \<Rightarrow> unit result \<times> terminal" where
  "write_text txt t =
     (if \<not> running t then (Raise NotStarted, t)
      else case process t of
        None \<Rightarrow> (Raise AttributeError, t)
      | Some p \<Rightarrow> (Return (), t\<lparr>process := Some (pty_write txt p)\<rparr>))"

text \<open>The two statements of \<open>read_output\<close> behind its optional sleep.\<close>

definition drain_join :: "terminal \<Rightarrow> string" where
  "drain_join t = concat (output_buffer t)"

definition drain_clear :: "terminal \<Rightarrow> terminal" where
  "drain_clear t = t\<lparr>output_buffer := []\<rparr>"

definition read_output :: "real \<Rightarrow> read_event list \<Rightarrow> terminal \<Rightarrow> string \<times> terminal" where
  "read_output timeout evs t =
     (let t1 = (if timeout > 0 then read_output_loop evs t else t);
          output = drain_join t1;
          t2 = drain_clear t1
      in (output, t2))"

text \<open>
  The wait of \<open>send_command\<close> is a real number: a length that \<open>time.sleep\<close> accepts, or
  a negative one, which it rejects with \<open>ValueError\<close>. The write to the driver returns.
\<close>

definition send_command :: "string \<Rightarrow> real \<Rightarrow> read_event list \<Rightarrow> terminal \<Rightarrow> string result \<times> terminal" where
  "send_command cmd wait_time evs t =
     (if \<not> running t then (Raise NotStarted, t)
      else
        let t1 = t\<lparr>output_buffer := []\<rparr> in
        case process t1 of
          None \<Rightarrow> (Raise AttributeError, t1)
        | Some p \<Rightarrow>
            (let t2 = t1\<lparr>process := Some (pty_write (cmd @ [CR]) p)\<rparr> in
             if wait_time < 0 then (Raise ValueError, t2)
             else
               let t3 = read_output_loop evs t2;
                   (output, t4) = read_output 0 [] t3
               in (Return output, t4)))"

definition get_latest_output :: "int \<Rightarrow> terminal \<Rightarrow> string" where
  "get_latest_output lines t =
     (let b = output_buffer t;
          recent = (if lines > 0 then drop (length b - nat lines) b else drop (nat (- lines)) b)
      in concat recent)"

definition is_alive :: "terminal \<Rightarrow> bool" where
  "is_alive t = (running t \<and> output_thread t = Some True)"

definition close :: "terminal \<Rightarrow> terminal" where
  "close t =
     (if running t then
        (let t1 = t\<lparr>running := False\<rparr>;
             t2 = t1\<lparr>output_thread := map_option (\<lambda>_. False) (output_thread t1)\<rparr>
         in t2\<lparr>process := None\<rparr>)
      else t)"

text \<open>The states a session object can be in: built by the constructor and changed by
  its methods and by the polls of its reader thread.\<close>

inductive terminal_reachable :: "terminal \<Rightarrow> bool" where
  tr_init: "terminal_reachable (TerminalAPI_init c r cmd lp)"
| tr_start: "terminal_reachable t \<Longrightarrow> terminal_reachable (snd (start outcome evs t))"
| tr_poll: "terminal_reachable t \<Longrightarrow> terminal_reachable (read_output_loop_iter ev t)"
| tr_write: "terminal_reachable t \<Longrightarrow> terminal_reachable (snd (write_text txt t))"
| tr_send: "terminal_reachable t \<Longrightarrow> terminal_reachable (snd (send_command cmd w evs t))"
| tr_read: "terminal_reachable t \<Longrightarrow> terminal_reachable (snd (read_output timeout evs t))"
| tr_close: "terminal_reachable t \<Longrightarrow> terminal_reachable (close t)"

section \<open>The session registry\<close>

text \<open>
  A dictionary keeps its keys in insertion order, and the scan of the names follows that
  order, so the three dictionaries are association lists: \<open>AList.update\<close> overwrites a
  key in place or adds it at the end, \<open>AList.delete\<close> removes it. The fresh id
  (\<open>uuid.uuid4()\<close>) and the clock (\<open>time.time()\<close>) are parameters.
\<close>

record session_meta =
  name :: string
  created_at :: real

record history_item =
  command :: string
  timestamp :: real

record session_manager =
  sessions :: "(string \<times> terminal) list"
  history :: "(string \<times> history_item list) list"
  metadata :: "(string \<times> session_meta) list"

definition SessionManager_init :: session_manager where
  "SessionManager_init = \<lparr>sessions = [], history = [], metadata = []\<rparr>"

definition has_key :: "'k \<Rightarrow> ('k \<times> 'v) list \<Rightarrow> bool" where
  "has_key k d = (k \<in> set (map fst d))"

text \<open>\<open>c.isalnum()\<close> on the characters up to U+00FF: the ASCII letters and digits,
  and the letters and numeric characters of Latin-1.\<close>

definition isalnum :: "char \<Rightarrow> bool" where
  "isalnum c =
     (let n = (of_char c :: nat) in
        (48 \<le> n \<and> n \<le> 57) \<or> (65 \<le> n \<and> n \<le> 90) \<or> (97 \<le> n \<and> n \<le> 122) \<or>
        n \<in> {170, 178, 179, 181, 185, 186, 188, 189, 190} \<or>
        (192 \<le> n \<and> n \<le> 214) \<or> (216 \<le> n \<and> n \<le> 246) \<or> (248 \<le> n \<and> n \<le> 255))"

definition strip :: "string \<Rightarrow> string" where
  "strip s = rev (dropWhile (\<lambda>c. c = CHR '' '') (rev (dropWhile (\<lambda>c. c = CHR '' '') s)))"

definition safe_name_of :: "string \<Rightarrow> string" where
  "safe_name_of nm =
     map (\<lambda>c. if c = CHR '' '' then CHR ''_'' else c)
       (strip (filter (\<lambda>c. isalnum c \<or> c \<in> {CHR '' '', CHR ''-'', CHR ''_''}) nm))"

definition perform_startup_cleanup ::
  "read_event list \<Rightarrow> read_event list \<Rightarrow> terminal \<Rightarrow> unit result \<times> terminal" where
  "perform_startup_cleanup evs1 evs2 t =
     (let t1 = read_output_loop evs1 t;
          (_, t2) = read_output 0 [] t1
      in case write_text [ETX] t2 of
           (Raise e, t3) \<Rightarrow> (Raise e, t3)
         | (Return _, t3) \<Rightarrow>
             (let t4 = read_output_loop evs2 t3;
                  (_, t5) = read_output 0 [] t4
              in (Return (), t5)))"

definition create_session ::
  "string \<Rightarrow> string option \<Rightarrow> int \<Rightarrow> int \<Rightarrow> string option \<Rightarrow> real \<Rightarrow> spawn_outcome \<Rightarrow>
   read_event list \<Rightarrow> read_event list \<Rightarrow> read_event list \<Rightarrow> print_outcome \<Rightarrow>
   session_manager \<Rightarrow> string result \<times> session_manager" where
  "create_session session_id nm c r cmd now outcome evs0 evs1 evs2 printed m =
     (let nm' = (if \<not> truthy nm then ''Session-'' @ take 8 session_id else the nm);
          safe_name = safe_name_of nm';
          lp = ''logs/'' @ safe_name @ ''_'' @ take 8 session_id @ ''.log'';
          t = (if truthy cmd then TerminalAPI_init c r (the cmd) (Some lp)
               else TerminalAPI_init c r default_shell_command (Some lp))
      in case start outcome evs0 t of
           (Raise e, _) \<Rightarrow> (Raise e, m)
         | (Return _, t1) \<Rightarrow>
             (case perform_startup_cleanup evs1 evs2 t1 of
                (Raise e, _) \<Rightarrow> (Raise e, m)
              | (Return _, t2) \<Rightarrow>
                  (let m1 = m\<lparr>sessions := AList.update session_id t2 (sessions m)\<rparr>;
                       m2 = m1\<lparr>history := AList.update session_id [] (history m1)\<rparr>;
                       m3 = m2\<lparr>metadata := AList.update session_id
                                    \<lparr>name = nm', created_at = now\<rparr> (metadata m2)\<rparr>
                   in case printed of
                        PrintRaises \<Rightarrow> (Raise StdoutError, m3)
                      | Printed \<Rightarrow> (Return session_id, m3))))"

definition resolve_id :: "string \<Rightarrow> session_manager \<Rightarrow> string option" where
  "resolve_id identifier m =
     (if has_key identifier (sessions m) then Some identifier
      else case find (\<lambda>(sid, meta). name meta = identifier) (metadata m) of
             Some (sid, meta) \<Rightarrow> Some sid
           | None \<Rightarrow> None)"

text \<open>\<open>if sid\<close> holds for a string that is neither \<open>None\<close> nor empty.\<close>

definition record_command :: "string \<Rightarrow> string \<Rightarrow> real \<Rightarrow> session_manager \<Rightarrow> session_manager" where
  "record_command identifier cmd now m =
     (case resolve_id identifier m of
        None \<Rightarrow> m
      | Some sid \<Rightarrow>
          if sid \<noteq> [] then
            (case map_of (history m) sid of
               None \<Rightarrow> m
             | Some h \<Rightarrow>
                 m\<lparr>history := AList.update sid (h @ [\<lparr>command = cmd, timestamp = now\<rparr>]) (history m)\<rparr>)
          else m)"

text \<open>The value returned is a Python object that the caller tests against \<open>None\<close>;
  \<open>None\<close> of the option type is Python's \<open>None\<close>.\<close>

definition get_history :: "string \<Rightarrow> session_manager \<Rightarrow> history_item list option" where
  "get_history identifier m =
     (case resolve_id identifier m of
        None \<Rightarrow> Some []
      | Some sid \<Rightarrow>
          if sid \<noteq> [] then
            (case map_of (history m) sid of Some h \<Rightarrow> Some h | None \<Rightarrow> Some [])
          else Some [])"

definition get_session :: "string \<Rightarrow> session_manager \<Rightarrow> terminal option result" where
  "get_session identifier m =
     (case map_of (sessions m) identifier of
        Some t \<Rightarrow> Return (Some t)
      | None \<Rightarrow>
          (case find (\<lambda>(sid, meta). name meta = identifier) (metadata m) of
             Some (sid, meta) \<Rightarrow>
               (case map_of (sessions m) sid of
                  Some t \<Rightarrow> Return (Some t)
                | None \<Rightarrow> Raise KeyError)
           | None \<Rightarrow> Return None))"

text \<open>The terminal is closed and then dropped with its entry.\<close>

definition kill_session :: "string \<Rightarrow> session_manager \<Rightarrow> bool \<times> session_manager" where
  "kill_session identifier m =
     (case resolve_id identifier m of
        None \<Rightarrow> (False, m)
      | Some session_id \<Rightarrow>
          if session_id \<noteq> [] \<and> has_key session_id (sessions m) then
            (let m1 = m\<lparr>sessions := AList.delete session_id (sessions m)\<rparr>;
                 m2 = m1\<lparr>history := AList.delete session_id (history m1)\<rparr>;
                 m3 = m2\<lparr>metadata := AList.delete session_id (metadata m2)\<rparr>
             in (True, m3))
          else (False, m))"

definition cleanup_all :: "session_manager \<Rightarrow> session_manager" where
  "cleanup_all m = m\<lparr>sessions := [], history := [], metadata := []\<rparr>"

inductive registry_reachable :: "session_manager \<Rightarrow> bool" where
  rr_init: "registry_reachable SessionManager_init"
| rr_create: "registry_reachable m \<Longrightarrow>
     registry_reachable
       (snd (create_session sid nm c r cmd now outcome evs0 evs1 evs2 printed m))"
| rr_record: "registry_reachable m \<Longrightarrow> registry_reachable (record_command identifier cmd now m)"
| rr_kill: "registry_reachable m \<Longrightarrow> registry_reachable (snd (kill_session identifier m))"
| rr_cleanup: "registry_reachable m \<Longrightarrow> registry_reachable (cleanup_all m)"

subsection \<open>The history endpoint of the server\<close>

datatype http_error = HTTP404 string

definition server_get_history :: "string \<Rightarrow> session_manager \<Rightarrow> http_error + history_item list" where
  "server_get_history session_id m =
     (case get_history session_id m of
        None \<Rightarrow> Inl (HTTP404 ''Session history not found'')
      | Some h \<Rightarrow> Inr h)"

section \<open>The reader thread next to a caller\<close>

text \<open>
  The reader thread works while it is alive, the session runs and the handle is there.
  \<open>appended_chunks\<close> lists what a live reader appends to the buffer over a run of polls:
  every filtered text that is not empty, until a read fails and the thread ends.
\<close>

definition reader_live :: "terminal \<Rightarrow> bool" where
  "reader_live t = (running t \<and> output_thread t = Some True \<and> process t \<noteq> None)"

fun appended_chunks :: "read_event list \<Rightarrow> string list" where
  "appended_chunks [] = []"
| "appended_chunks (Data d ok # evs) =
     (if filter_output d \<noteq> [] then filter_output d # appended_chunks evs
      else appended_chunks evs)"
| "appended_chunks (ReadError # evs) = []"






section \<open>Invariants\<close>

text \<open>What holds of every session object: a running session has its handle, the
  buffer holds no empty chunk and never more than \<open>maxlen\<close> chunks.\<close>

definition terminal_inv :: "terminal \<Rightarrow> bool" where
  "terminal_inv t = ((running t \<longrightarrow> process t \<noteq> None) \<and> [] \<notin> set (output_buffer t)
      \<and> length (output_buffer t) \<le> maxlen)"

text \<open>What holds of every registry: the three dictionaries have the same keys, each
  key once.\<close>

definition registry_inv :: "session_manager \<Rightarrow> bool" where
  "registry_inv m =
     (fst ` set (sessions m) = fst ` set (history m) \<and>
      fst ` set (history m) = fst ` set (metadata m) \<and>
      distinct (map fst (sessions m)) \<and> distinct (map fst (history m)) \<and>
      distinct (map fst (metadata m)))"

section \<open>The output buffer\<close>

lemma deque_append_full:
  "length q = n \<Longrightarrow> 0 < n \<Longrightarrow> deque_append n q x = tl q @ [x]"
  by (cases q) (auto simp: deque_append_def Let_def)

lemma deque_append_room:
  "length q < n \<Longrightarrow> deque_append n q x = q @ [x]"
  by (auto simp: deque_append_def Let_def)

lemma deque_append_length:
  "length q \<le> n \<Longrightarrow> length (deque_append n q x) \<le> n"
  by (cases q) (auto simp: deque_append_def Let_def)

lemma set_deque_append: "set (deque_append n q x) \<subseteq> insert x (set q)"
  by (cases q) (auto simp: deque_append_def Let_def)

lemma fold_deque_append:
  "length q \<le> n \<Longrightarrow>
   fold (\<lambda>c b. deque_append n b c) cs q = drop (length (q @ cs) - n) (q @ cs)"
proof (induction cs arbitrary: q)
  case Nil
  then show ?case by simp
next
  case (Cons c cs)
  have len: "length (deque_append n q c) \<le> n"
    using Cons.prems by (rule deque_append_length)
  have step: "fold (\<lambda>c b. deque_append n b c) (c # cs) q
        = drop (length (deque_append n q c @ cs) - n) (deque_append n q c @ cs)"
    using Cons.IH [OF len] by simp
  show ?case
  proof (cases "length q < n")
    case True
    then show ?thesis using step by (simp add: deque_append_room)
  next
    case False
    then have full: "length q = n" using Cons.prems by simp
    show ?thesis
    proof (cases q)
      case Nil
      then show ?thesis using step full by (simp add: deque_append_def)
    next
      case (Cons a q')
      have d: "deque_append n q c @ cs = q' @ c # cs"
        using Cons full by (simp add: deque_append_full)
      have l: "length (q' @ c # cs) - n = length cs"
        using Cons full by auto
      have r: "length (q @ c # cs) - n = Suc (length cs)"
        using Cons full by auto
      have "drop (length (q @ c # cs) - n) (q @ c # cs) = drop (length cs) (q' @ c # cs)"
        unfolding r using Cons by simp
      moreover have "drop (length (deque_append n q c @ cs) - n) (deque_append n q c @ cs)
          = drop (length cs) (q' @ c # cs)"
        by (simp only: d l)
      ultimately show ?thesis using step by simp
    qed
  qed
qed

text \<open>
  C4. A drain (\<open>read_output\<close> with timeout 0) returns the chunks of the buffer joined in
  their order and leaves the buffer empty. On an empty buffer it returns the empty text,
  so a second drain right after the first returns the empty text.
\<close>

theorem drain_returns_all_and_empties:
  "read_output 0 evs t = (concat (output_buffer t), t\<lparr>output_buffer := []\<rparr>) \<and>
   read_output 0 evs' (snd (read_output 0 evs t)) = ([], t\<lparr>output_buffer := []\<rparr>) \<and>
   read_output 0 evs (t\<lparr>output_buffer := []\<rparr>) = ([], t\<lparr>output_buffer := []\<rparr>)"
  by (simp add: read_output_def drain_join_def drain_clear_def Let_def)

section \<open>The session and its reader thread\<close>

lemma filter_output_Nil: "filter_output [] = []"
  by (simp add: filter_output_def)

lemma iter_buffer:
  "output_buffer (read_output_loop_iter ev t) =
     (if reader_live t then
        (case ev of
           Data d ok \<Rightarrow> if filter_output d \<noteq> []
                        then deque_append maxlen (output_buffer t) (filter_output d)
                        else output_buffer t
         | ReadError \<Rightarrow> output_buffer t)
      else output_buffer t)"
  by (auto simp: read_output_loop_iter_def reader_live_def Let_def filter_output_Nil
           split: read_event.splits option.splits)

lemma iter_log_sink:
  "log_sink (read_output_loop_iter ev t) =
     (if reader_live t then
        (case ev of
           Data d ok \<Rightarrow> if filter_output d \<noteq> [] \<and> truthy (log_path t) \<and> ok
                        then log_sink t @ filter_output d
                        else log_sink t
         | ReadError \<Rightarrow> log_sink t)
      else log_sink t)"
  by (auto simp: read_output_loop_iter_def reader_live_def Let_def filter_output_Nil
           split: read_event.splits option.splits)

lemma iter_fields:
  "running (read_output_loop_iter ev t) = running t"
  "process (read_output_loop_iter ev t) = process t"
  "log_path (read_output_loop_iter ev t) = log_path t"
  by (auto simp: read_output_loop_iter_def Let_def split: read_event.splits option.splits)

lemma iter_live:
  "reader_live (read_output_loop_iter ev t) = (reader_live t \<and> ev \<noteq> ReadError)"
  by (auto simp: read_output_loop_iter_def reader_live_def Let_def
           split: read_event.splits option.splits)

lemma deque_append_nonempty:
  "[] \<notin> set q \<Longrightarrow> x \<noteq> [] \<Longrightarrow> [] \<notin> set (deque_append n q x)"
  using set_deque_append [of n q x] by auto

lemma iter_inv: "terminal_inv t \<Longrightarrow> terminal_inv (read_output_loop_iter ev t)"
  unfolding terminal_inv_def iter_fields iter_buffer
  by (auto split: read_event.splits simp: deque_append_nonempty deque_append_length)

lemma loop_inv: "terminal_inv t \<Longrightarrow> terminal_inv (read_output_loop evs t)"
  unfolding read_output_loop_def
  by (induction evs arbitrary: t) (auto simp: iter_inv)

lemma loop_fields:
  "running (read_output_loop evs t) = running t"
  "process (read_output_loop evs t) = process t"
  unfolding read_output_loop_def
  by (induction evs arbitrary: t) (auto simp: iter_fields)

lemma reachable_inv: "terminal_reachable t \<Longrightarrow> terminal_inv t"
proof (induction rule: terminal_reachable.induct)
  case (tr_init c r cmd lp)
  show ?case by (simp add: terminal_inv_def TerminalAPI_init_def)
next
  case (tr_start t outcome evs)
  have "terminal_inv (t\<lparr>process := Some p\<rparr>)" if "\<not> running t" for p
    using tr_start.IH that by (simp add: terminal_inv_def)
  moreover have "terminal_inv (t\<lparr>process := Some p, running := True, output_thread := Some True\<rparr>)" for p
    using tr_start.IH by (simp add: terminal_inv_def)
  ultimately show ?case using tr_start.IH
    by (auto simp: start_def Let_def loop_inv split: spawn_outcome.splits)
next
  case (tr_poll t ev)
  then show ?case by (simp add: iter_inv)
next
  case (tr_write t s)
  then show ?case
    by (auto simp: write_text_def terminal_inv_def split: option.splits)
next
  case (tr_send t cmd w evs)
  have a: "terminal_inv (t\<lparr>output_buffer := [], process := Some p\<rparr>)" for p
    using tr_send.IH by (simp add: terminal_inv_def)
  have b: "terminal_inv (t\<lparr>output_buffer := []\<rparr>)"
    using tr_send.IH by (simp add: terminal_inv_def)
  have c: "terminal_inv (drain_clear u)" if "terminal_inv u" for u
    using that by (simp add: terminal_inv_def drain_clear_def)
  show ?case using tr_send.IH a b
    by (auto simp: send_command_def Let_def read_output_def loop_inv c split: option.splits)
next
  case (tr_read t timeout evs)
  have c: "terminal_inv (drain_clear u)" if "terminal_inv u" for u
    using that by (simp add: terminal_inv_def drain_clear_def)
  show ?case using tr_read.IH
    by (auto simp: read_output_def Let_def loop_inv c)
next
  case (tr_close t)
  then show ?case by (auto simp: close_def Let_def terminal_inv_def)
qed

lemma loop_Cons:
  "read_output_loop (ev # evs) t = read_output_loop evs (read_output_loop_iter ev t)"
  by (simp add: read_output_loop_def)

lemma loop_dead:
  "\<not> reader_live t \<Longrightarrow> output_buffer (read_output_loop evs t) = output_buffer t"
  unfolding read_output_loop_def
  by (induction evs arbitrary: t) (auto simp: iter_buffer iter_live)

lemma loop_buffer:
  "reader_live t \<Longrightarrow>
   output_buffer (read_output_loop evs t) =
     fold (\<lambda>c b. deque_append maxlen b c) (appended_chunks evs) (output_buffer t)"
proof (induction evs arbitrary: t)
  case Nil
  then show ?case by (simp add: read_output_loop_def)
next
  case (Cons ev evs)
  show ?case
  proof (cases ev)
    case (Data d ok)
    then have "reader_live (read_output_loop_iter ev t)"
      using Cons.prems by (simp add: iter_live)
    from Cons.IH [OF this] show ?thesis
      using Data Cons.prems by (simp add: loop_Cons iter_buffer)
  next
    case ReadError
    then have "\<not> reader_live (read_output_loop_iter ev t)"
      by (simp add: iter_live)
    from loop_dead [OF this] show ?thesis
      using ReadError Cons.prems by (simp add: loop_Cons iter_buffer)
  qed
qed

text \<open>
  C5. The reader thread appends to the output buffer of the session through a deque of
  capacity 10000. After any run of polls of a live reader the buffer holds its former
  chunks followed by the chunks appended, without the oldest ones beyond the capacity:
  exactly the most recent \<open>min n 10000\<close> chunks, in arrival order. A poll that appends to
  a full buffer drops the oldest chunk and no other; a poll that appends to a buffer with
  room drops nothing.
\<close>

theorem buffer_keeps_most_recent:
  "maxlen = 10000 \<and>
   (terminal_reachable t \<and> reader_live t \<longrightarrow>
      output_buffer (read_output_loop evs t) =
        drop (length (output_buffer t @ appended_chunks evs) - maxlen)
          (output_buffer t @ appended_chunks evs) \<and>
      length (output_buffer (read_output_loop evs t)) =
        min (length (output_buffer t) + length (appended_chunks evs)) maxlen) \<and>
   (reader_live t \<and> output_buffer t = [] \<longrightarrow>
      output_buffer (read_output_loop evs t) =
        drop (length (appended_chunks evs) - maxlen) (appended_chunks evs)) \<and>
   (reader_live t \<and> filter_output d \<noteq> [] \<and> length (output_buffer t) = maxlen \<longrightarrow>
      output_buffer (read_output_loop_iter (Data d ok) t) =
        tl (output_buffer t) @ [filter_output d]) \<and>
   (reader_live t \<and> filter_output d \<noteq> [] \<and> length (output_buffer t) < maxlen \<longrightarrow>
      output_buffer (read_output_loop_iter (Data d ok) t) =
        output_buffer t @ [filter_output d]) \<and>
   fold (\<lambda>c b. deque_append maxlen b c) cs [] = drop (length cs - maxlen) cs \<and>
   length (fold (\<lambda>c b. deque_append maxlen b c) cs []) = min (length cs) maxlen \<and>
   (length q = maxlen \<longrightarrow> deque_append maxlen q c = tl q @ [c]) \<and>
   (length q < maxlen \<longrightarrow> deque_append maxlen q c = q @ [c])"
proof -
  have m: "maxlen = 10000" by (simp add: maxlen_def)
  have gen: "output_buffer (read_output_loop evs t) =
        drop (length (output_buffer t @ appended_chunks evs) - maxlen)
          (output_buffer t @ appended_chunks evs)"
    if live: "reader_live t" and len: "length (output_buffer t) \<le> maxlen"
  proof -
    have "output_buffer (read_output_loop evs t) =
        fold (\<lambda>c b. deque_append maxlen b c) (appended_chunks evs) (output_buffer t)"
      using live by (rule loop_buffer)
    also have "\<dots> = drop (length (output_buffer t @ appended_chunks evs) - maxlen)
          (output_buffer t @ appended_chunks evs)"
      using len by (rule fold_deque_append)
    finally show ?thesis .
  qed
  have p1: "terminal_reachable t \<and> reader_live t \<longrightarrow>
      output_buffer (read_output_loop evs t) =
        drop (length (output_buffer t @ appended_chunks evs) - maxlen)
          (output_buffer t @ appended_chunks evs) \<and>
      length (output_buffer (read_output_loop evs t)) =
        min (length (output_buffer t) + length (appended_chunks evs)) maxlen"
  proof
    assume h: "terminal_reachable t \<and> reader_live t"
    then have len: "length (output_buffer t) \<le> maxlen"
      using reachable_inv [of t] by (simp add: terminal_inv_def)
    have e: "output_buffer (read_output_loop evs t) =
        drop (length (output_buffer t @ appended_chunks evs) - maxlen)
          (output_buffer t @ appended_chunks evs)"
      using h len by (simp add: gen)
    have "length (drop (length (output_buffer t @ appended_chunks evs) - maxlen)
          (output_buffer t @ appended_chunks evs)) =
        min (length (output_buffer t) + length (appended_chunks evs)) maxlen"
      by auto
    then show "output_buffer (read_output_loop evs t) =
        drop (length (output_buffer t @ appended_chunks evs) - maxlen)
          (output_buffer t @ appended_chunks evs) \<and>
      length (output_buffer (read_output_loop evs t)) =
        min (length (output_buffer t) + length (appended_chunks evs)) maxlen"
      using e by simp
  qed
  have p2: "reader_live t \<and> output_buffer t = [] \<longrightarrow>
      output_buffer (read_output_loop evs t) =
        drop (length (appended_chunks evs) - maxlen) (appended_chunks evs)"
    using gen by auto
  have p3: "reader_live t \<and> filter_output d \<noteq> [] \<and> length (output_buffer t) = maxlen \<longrightarrow>
      output_buffer (read_output_loop_iter (Data d ok) t) =
        tl (output_buffer t) @ [filter_output d]"
    by (simp add: iter_buffer deque_append_full maxlen_def)
  have p4: "reader_live t \<and> filter_output d \<noteq> [] \<and> length (output_buffer t) < maxlen \<longrightarrow>
      output_buffer (read_output_loop_iter (Data d ok) t) =
        output_buffer t @ [filter_output d]"
    by (simp add: iter_buffer deque_append_room)
  have a: "fold (\<lambda>c b. deque_append maxlen b c) cs [] = drop (length cs - maxlen) cs"
    using fold_deque_append [of "[]" maxlen cs] by simp
  have b: "length (fold (\<lambda>c b. deque_append maxlen b c) cs []) = min (length cs) maxlen"
    unfolding a by auto
  have c: "length q = maxlen \<longrightarrow> deque_append maxlen q c = tl q @ [c]"
    by (simp add: deque_append_full maxlen_def)
  have d: "length q < maxlen \<longrightarrow> deque_append maxlen q c = q @ [c]"
    by (simp add: deque_append_room)
  show ?thesis
    by (intro conjI m p1 p2 p3 p4 a b c d)
qed

theorem buffer_keeps_most_recent_witness:
  "terminal_reachable (snd (start SpawnOk [] (TerminalAPI_init 120 30 ''sh'' None))) \<and> reader_live (snd (start SpawnOk [] (TerminalAPI_init 120 30 ''sh'' None))) \<and> output_buffer (snd (start SpawnOk [] (TerminalAPI_init 120 30 ''sh'' None))) = [] \<and>
   output_buffer (read_output_loop [Data ''a'' True, Data ''b'' True] (snd (start SpawnOk [] (TerminalAPI_init 120 30 ''sh'' None)))) = [''a'', ''b''] \<and>
   length (output_buffer (read_output_loop [Data ''a'' True, Data ''b'' True] (snd (start SpawnOk [] (TerminalAPI_init 120 30 ''sh'' None))))) = 2 \<and>
   reader_live ((snd (start SpawnOk [] (TerminalAPI_init 120 30 ''sh'' None)))\<lparr>output_buffer := replicate 10000 ''x''\<rparr>) \<and> filter_output ''y'' \<noteq> [] \<and> length (output_buffer ((snd (start SpawnOk [] (TerminalAPI_init 120 30 ''sh'' None)))\<lparr>output_buffer := replicate 10000 ''x''\<rparr>)) = maxlen \<and>
   output_buffer (read_output_loop_iter (Data ''y'' True) ((snd (start SpawnOk [] (TerminalAPI_init 120 30 ''sh'' None)))\<lparr>output_buffer := replicate 10000 ''x''\<rparr>)) = tl (replicate 10000 ''x'') @ [''y''] \<and>
   length [''a'', ''b''] < maxlen \<and>
   deque_append maxlen [''a'', ''b''] ''c'' = [''a'', ''b'', ''c'']"
proof -
  have reach: "terminal_reachable (snd (start SpawnOk [] (TerminalAPI_init 120 30 ''sh'' None)))"
    by (rule tr_start [OF tr_init])
  have live: "reader_live (snd (start SpawnOk [] (TerminalAPI_init 120 30 ''sh'' None)))"
    by (simp add: reader_live_def start_def TerminalAPI_init_def Let_def read_output_loop_def)
  have b0: "output_buffer (snd (start SpawnOk [] (TerminalAPI_init 120 30 ''sh'' None))) = []"
    by (simp add: start_def TerminalAPI_init_def Let_def read_output_loop_def)
  have liveF: "reader_live ((snd (start SpawnOk [] (TerminalAPI_init 120 30 ''sh'' None)))\<lparr>output_buffer := replicate 10000 ''x''\<rparr>)"
    using live by (simp add: reader_live_def)
  have bF: "output_buffer ((snd (start SpawnOk [] (TerminalAPI_init 120 30 ''sh'' None)))\<lparr>output_buffer := replicate 10000 ''x''\<rparr>) = replicate 10000 ''x''"
    by simp
  have fa: "filter_output ''a'' = ''a''"
    by (simp add: filter_output_def re_sub_def replace_empty_def match_literal_def DA_pattern_def CPR_pattern_def mode_pattern_def OSC_BEL_pattern_def OSC_ST_pattern_def digit_def)
  have fb: "filter_output ''b'' = ''b''"
    by (simp add: filter_output_def re_sub_def replace_empty_def match_literal_def DA_pattern_def CPR_pattern_def mode_pattern_def OSC_BEL_pattern_def OSC_ST_pattern_def digit_def)
  have fy: "filter_output ''y'' = ''y''"
    by (simp add: filter_output_def re_sub_def replace_empty_def match_literal_def DA_pattern_def CPR_pattern_def mode_pattern_def OSC_BEL_pattern_def OSC_ST_pattern_def digit_def)
  show ?thesis
    using buffer_keeps_most_recent [of "snd (start SpawnOk [] (TerminalAPI_init 120 30 ''sh'' None))" "[Data ''a'' True, Data ''b'' True]"
            "''y''" True "[]" "[''a'', ''b'']" "''c''"]
          buffer_keeps_most_recent [of "(snd (start SpawnOk [] (TerminalAPI_init 120 30 ''sh'' None)))\<lparr>output_buffer := replicate 10000 ''x''\<rparr>" "[]"
            "''y''" True "[]" "[''a'', ''b'']" "''c''"]
          reach live b0 liveF
    by (simp add: fa fb fy maxlen_def)
qed

text \<open>
  C10. A poll whose filtered text is empty leaves the buffer and the log sink as they
  were, also when the raw chunk was not empty; and the buffer of a session never holds an
  empty chunk.
\<close>

theorem empty_filtered_chunk_not_buffered:
  "(filter_output d = [] \<longrightarrow>
      output_buffer (read_output_loop_iter (Data d ok) t) = output_buffer t \<and>
      log_sink (read_output_loop_iter (Data d ok) t) = log_sink t) \<and>
   (terminal_reachable t \<longrightarrow> [] \<notin> set (output_buffer t))"
  using reachable_inv [of t] by (simp add: iter_buffer iter_log_sink terminal_inv_def)

theorem empty_filtered_chunk_not_buffered_witness:
  "[ESC, CHR ''['', CHR ''?'', CHR ''2'', CHR ''5'', CHR ''h''] \<noteq> [] \<and>
   filter_output [ESC, CHR ''['', CHR ''?'', CHR ''2'', CHR ''5'', CHR ''h''] = [] \<and>
   output_buffer (read_output_loop_iter
       (Data [ESC, CHR ''['', CHR ''?'', CHR ''2'', CHR ''5'', CHR ''h''] True)
       (snd (start SpawnOk [] (TerminalAPI_init 120 30 ''sh'' (Some ''logs/a.log'')))))
     = output_buffer (snd (start SpawnOk [] (TerminalAPI_init 120 30 ''sh'' (Some ''logs/a.log'')))) \<and>
   log_sink (read_output_loop_iter
       (Data [ESC, CHR ''['', CHR ''?'', CHR ''2'', CHR ''5'', CHR ''h''] True)
       (snd (start SpawnOk [] (TerminalAPI_init 120 30 ''sh'' (Some ''logs/a.log'')))))
     = log_sink (snd (start SpawnOk [] (TerminalAPI_init 120 30 ''sh'' (Some ''logs/a.log'')))) \<and>
   terminal_reachable (snd (start SpawnOk [] (TerminalAPI_init 120 30 ''sh'' (Some ''logs/a.log'')))) \<and>
   [] \<notin> set (output_buffer (snd (start SpawnOk [] (TerminalAPI_init 120 30 ''sh'' (Some ''logs/a.log'')))))"
proof -
  have f: "filter_output [ESC, CHR ''['', CHR ''?'', CHR ''2'', CHR ''5'', CHR ''h''] = []"
    by (simp add: filter_output_def re_sub_def replace_empty_def match_literal_def
          DA_pattern_def CPR_pattern_def mode_pattern_def OSC_BEL_pattern_def
          OSC_ST_pattern_def digit_def)
  have r: "terminal_reachable (snd (start SpawnOk [] (TerminalAPI_init 120 30 ''sh'' (Some ''logs/a.log''))))"
    by (rule tr_start [OF tr_init])
  show ?thesis
    using empty_filtered_chunk_not_buffered
      [of "[ESC, CHR ''['', CHR ''?'', CHR ''2'', CHR ''5'', CHR ''h'']" True
          "snd (start SpawnOk [] (TerminalAPI_init 120 30 ''sh'' (Some ''logs/a.log'')))"] f r
    by simp
qed

text \<open>
  C6, as amended. \<open>start\<close> raises its already-running error exactly when the session
  runs, \<open>write\<close> and \<open>send_command\<close> raise their not-started error exactly when the
  session does not run, and a call that fails at its guard leaves the whole session as it
  was.
\<close>

theorem guard_failures:
  "(fst (start outcome evs t) = Raise AlreadyRunning \<longleftrightarrow> running t) \<and>
   (running t \<longrightarrow> start outcome evs t = (Raise AlreadyRunning, t)) \<and>
   (fst (write_text s t) = Raise NotStarted \<longleftrightarrow> \<not> running t) \<and>
   (\<not> running t \<longrightarrow> write_text s t = (Raise NotStarted, t)) \<and>
   (fst (send_command cmd w evs t) = Raise NotStarted \<longleftrightarrow> \<not> running t) \<and>
   (\<not> running t \<longrightarrow> send_command cmd w evs t = (Raise NotStarted, t))"
proof -
  have s1: "fst (start outcome evs t) = Raise AlreadyRunning \<longleftrightarrow> running t"
    by (auto simp: start_def Let_def split: spawn_outcome.splits)
  have s2: "running t \<longrightarrow> start outcome evs t = (Raise AlreadyRunning, t)"
    by (simp add: start_def)
  have w1: "fst (write_text s t) = Raise NotStarted \<longleftrightarrow> \<not> running t"
    by (auto simp: write_text_def split: option.splits)
  have w2: "\<not> running t \<longrightarrow> write_text s t = (Raise NotStarted, t)"
    by (simp add: write_text_def)
  have c1: "fst (send_command cmd w evs t) = Raise NotStarted \<longleftrightarrow> \<not> running t"
    by (auto simp: send_command_def Let_def read_output_def split: option.splits)
  have c2: "\<not> running t \<longrightarrow> send_command cmd w evs t = (Raise NotStarted, t)"
    by (simp add: send_command_def)
  show ?thesis
    by (intro conjI s1 s2 w1 w2 c1 c2)
qed

theorem guard_failures_witness:
  "running (snd (start SpawnOk [] (TerminalAPI_init 120 30 ''sh'' None))) \<and>
   start SpawnOk [] (snd (start SpawnOk [] (TerminalAPI_init 120 30 ''sh'' None))) = (Raise AlreadyRunning, (snd (start SpawnOk [] (TerminalAPI_init 120 30 ''sh'' None)))) \<and>
   fst (write_text ''ls'' (snd (start SpawnOk [] (TerminalAPI_init 120 30 ''sh'' None)))) \<noteq> Raise NotStarted \<and>
   fst (send_command ''ls'' 0.5 [] (snd (start SpawnOk [] (TerminalAPI_init 120 30 ''sh'' None)))) \<noteq> Raise NotStarted \<and>
   \<not> running (TerminalAPI_init 120 30 ''sh'' None) \<and>
   fst (start SpawnOk [] (TerminalAPI_init 120 30 ''sh'' None)) \<noteq> Raise AlreadyRunning \<and>
   fst (start SpawnFails [] (TerminalAPI_init 120 30 ''sh'' None)) \<noteq> Raise AlreadyRunning \<and>
   write_text ''ls'' (TerminalAPI_init 120 30 ''sh'' None) = (Raise NotStarted, (TerminalAPI_init 120 30 ''sh'' None)) \<and>
   send_command ''ls'' 0.5 [] (TerminalAPI_init 120 30 ''sh'' None) = (Raise NotStarted, (TerminalAPI_init 120 30 ''sh'' None))"
proof -
  have r1: "running (snd (start SpawnOk [] (TerminalAPI_init 120 30 ''sh'' None)))"
    by (simp add: start_def TerminalAPI_init_def Let_def read_output_loop_def)
  have r0: "\<not> running (TerminalAPI_init 120 30 ''sh'' None)"
    by (simp add: TerminalAPI_init_def)
  show ?thesis
    using guard_failures [of SpawnOk "[]" "snd (start SpawnOk [] (TerminalAPI_init 120 30 ''sh'' None))" "''ls''" "''ls''" "0.5"]
          guard_failures [of SpawnFails "[]" "TerminalAPI_init 120 30 ''sh'' None" "''ls''" "''ls''" "0.5"]
          guard_failures [of SpawnOk "[]" "TerminalAPI_init 120 30 ''sh'' None" "''ls''" "''ls''" "0.5"]
          r1 r0
    by simp
qed

text \<open>
  C6 as stated fails. A session that does not run fails to start when the driver cannot
  spawn, and the failed call has changed the driver handle; a running session fails to
  run a command when \<open>time.sleep\<close> rejects the wait.
\<close>

theorem failures_beside_the_guards:
  "\<not> running (TerminalAPI_init 120 30 ''sh'' None) \<and>
   fst (start SpawnFails [] (TerminalAPI_init 120 30 ''sh'' None)) = Raise DriverError \<and>
   process (TerminalAPI_init 120 30 ''sh'' None) = None \<and>
   process (snd (start SpawnFails [] (TerminalAPI_init 120 30 ''sh'' None))) = Some (PTY_init 120 30) \<and>
   running (snd (start SpawnOk [] (TerminalAPI_init 120 30 ''sh'' None))) \<and>
   fst (send_command ''ls'' (- 1) [] (snd (start SpawnOk [] (TerminalAPI_init 120 30 ''sh'' None)))) = Raise ValueError"
  by (simp add: start_def send_command_def TerminalAPI_init_def Let_def read_output_loop_def)

text \<open>
  C8. On a running session with a wait that is not negative, \<open>send_command\<close> empties the
  buffer, writes the command followed by one carriage return to the driver, lets the
  reader thread poll during the wait, and returns the join of the buffer, which it leaves
  empty. With a live reader the text returned is the join of the chunks appended during
  the wait, in arrival order (of the last \<open>maxlen\<close> of them, should there be more).
\<close>

theorem command_round_trip:
  "running t \<and> process t = Some p \<and> 0 \<le> w \<longrightarrow>
     send_command cmd w evs t =
       (Return (concat (output_buffer
          (read_output_loop evs (t\<lparr>output_buffer := [], process := Some (pty_write (cmd @ [CR]) p)\<rparr>)))),
        (read_output_loop evs (t\<lparr>output_buffer := [], process := Some (pty_write (cmd @ [CR]) p)\<rparr>))
          \<lparr>output_buffer := []\<rparr>) \<and>
     process (snd (send_command cmd w evs t)) = Some (p\<lparr>written := written p @ [cmd @ [CR]]\<rparr>) \<and>
     output_buffer (snd (send_command cmd w evs t)) = [] \<and>
     (output_thread t = Some True \<longrightarrow>
        fst (send_command cmd w evs t) =
          Return (concat (drop (length (appended_chunks evs) - maxlen) (appended_chunks evs)))) \<and>
     (output_thread t = Some True \<and> length (appended_chunks evs) \<le> maxlen \<longrightarrow>
        fst (send_command cmd w evs t) = Return (concat (appended_chunks evs)))"
proof (intro impI)
  assume h: "running t \<and> process t = Some p \<and> 0 \<le> w"
  let ?t2 = "t\<lparr>output_buffer := [], process := Some (pty_write (cmd @ [CR]) p)\<rparr>"
  let ?t3 = "read_output_loop evs ?t2"
  have eq: "send_command cmd w evs t = (Return (concat (output_buffer ?t3)), ?t3\<lparr>output_buffer := []\<rparr>)"
    using h by (simp add: send_command_def Let_def read_output_def drain_join_def drain_clear_def)
  have pr: "process (snd (send_command cmd w evs t)) = Some (p\<lparr>written := written p @ [cmd @ [CR]]\<rparr>)"
    unfolding eq by (simp add: loop_fields pty_write_def)
  have live: "output_thread t = Some True \<Longrightarrow> reader_live ?t2"
    using h by (simp add: reader_live_def)
  have buf: "output_thread t = Some True \<Longrightarrow>
      output_buffer ?t3 = drop (length (appended_chunks evs) - maxlen) (appended_chunks evs)"
    using loop_buffer [OF live] fold_deque_append [of "[]" maxlen "appended_chunks evs"] by simp
  show "send_command cmd w evs t = (Return (concat (output_buffer ?t3)), ?t3\<lparr>output_buffer := []\<rparr>) \<and>
     process (snd (send_command cmd w evs t)) = Some (p\<lparr>written := written p @ [cmd @ [CR]]\<rparr>) \<and>
     output_buffer (snd (send_command cmd w evs t)) = [] \<and>
     (output_thread t = Some True \<longrightarrow>
        fst (send_command cmd w evs t) =
          Return (concat (drop (length (appended_chunks evs) - maxlen) (appended_chunks evs)))) \<and>
     (output_thread t = Some True \<and> length (appended_chunks evs) \<le> maxlen \<longrightarrow>
        fst (send_command cmd w evs t) = Return (concat (appended_chunks evs)))"
    using eq pr buf by simp
qed

theorem command_round_trip_witness:
  "running (snd (start SpawnOk [] (TerminalAPI_init 120 30 ''sh'' None))) \<and> process (snd (start SpawnOk [] (TerminalAPI_init 120 30 ''sh'' None))) = Some (pty_spawn ''sh'' (PTY_init 120 30)) \<and> (0::real) \<le> 0.5 \<and>
   output_thread (snd (start SpawnOk [] (TerminalAPI_init 120 30 ''sh'' None))) = Some True \<and>
   length (appended_chunks [Data ''hi'' True]) \<le> maxlen \<and>
   fst (send_command ''ls'' 0.5 [Data ''hi'' True] (snd (start SpawnOk [] (TerminalAPI_init 120 30 ''sh'' None)))) = Return ''hi'' \<and>
   output_buffer (snd (send_command ''ls'' 0.5 [Data ''hi'' True] (snd (start SpawnOk [] (TerminalAPI_init 120 30 ''sh'' None))))) = [] \<and>
   process (snd (send_command ''ls'' 0.5 [Data ''hi'' True] (snd (start SpawnOk [] (TerminalAPI_init 120 30 ''sh'' None))))) =
     Some ((pty_spawn ''sh'' (PTY_init 120 30))\<lparr>written := written (pty_spawn ''sh'' (PTY_init 120 30)) @ [''ls'' @ [CR]]\<rparr>)"
proof -
  have r1: "running (snd (start SpawnOk [] (TerminalAPI_init 120 30 ''sh'' None)))"
    by (simp add: start_def TerminalAPI_init_def Let_def read_output_loop_def)
  have p1: "process (snd (start SpawnOk [] (TerminalAPI_init 120 30 ''sh'' None))) = Some (pty_spawn ''sh'' (PTY_init 120 30))"
    by (simp add: start_def TerminalAPI_init_def Let_def read_output_loop_def)
  have o1: "output_thread (snd (start SpawnOk [] (TerminalAPI_init 120 30 ''sh'' None))) = Some True"
    by (simp add: start_def TerminalAPI_init_def Let_def read_output_loop_def)
  have f: "filter_output ''hi'' = ''hi''"
    by (simp add: filter_output_def re_sub_def replace_empty_def match_literal_def
          DA_pattern_def CPR_pattern_def mode_pattern_def OSC_BEL_pattern_def
          OSC_ST_pattern_def digit_def)
  have a: "appended_chunks [Data ''hi'' True] = [''hi'']"
    by (simp add: f)
  have w: "(0::real) \<le> 0.5" by simp
  have h: "running (snd (start SpawnOk [] (TerminalAPI_init 120 30 ''sh'' None))) \<and> process (snd (start SpawnOk [] (TerminalAPI_init 120 30 ''sh'' None))) = Some (pty_spawn ''sh'' (PTY_init 120 30)) \<and> (0::real) \<le> 0.5"
    using r1 p1 w by simp
  show ?thesis
    using command_round_trip [of "snd (start SpawnOk [] (TerminalAPI_init 120 30 ''sh'' None))" "pty_spawn ''sh'' (PTY_init 120 30)" "0.5" "''ls''" "[Data ''hi'' True]",
            THEN mp, OF h, THEN conjunct2] r1 p1 o1 w
    by (simp add: maxlen_def f)
qed

section \<open>The registry\<close>

lemma create_session_cases:
  "(\<exists>e. create_session sid nm c r cmd now outcome evs0 evs1 evs2 printed m = (Raise e, m)) \<or>
   (\<exists>t meta. create_session sid nm c r cmd now outcome evs0 evs1 evs2 printed m =
      ((case printed of PrintRaises \<Rightarrow> Raise StdoutError | Printed \<Rightarrow> Return sid),
       m\<lparr>sessions := AList.update sid t (sessions m),
         history := AList.update sid [] (history m),
         metadata := AList.update sid meta (metadata m)\<rparr>))"
proof -
  define nm' where "nm' = (if \<not> truthy nm then ''Session-'' @ take 8 sid else the nm)"
  define lp where "lp = ''logs/'' @ safe_name_of nm' @ ''_'' @ take 8 sid @ ''.log''"
  define t where "t = (if truthy cmd then TerminalAPI_init c r (the cmd) (Some lp)
               else TerminalAPI_init c r default_shell_command (Some lp))"
  have unf: "create_session sid nm c r cmd now outcome evs0 evs1 evs2 printed m =
     (case start outcome evs0 t of
           (Raise e, _) \<Rightarrow> (Raise e, m)
         | (Return _, t1) \<Rightarrow>
             (case perform_startup_cleanup evs1 evs2 t1 of
                (Raise e, _) \<Rightarrow> (Raise e, m)
              | (Return _, t2) \<Rightarrow>
                  (case printed of
                     PrintRaises \<Rightarrow>
                       (Raise StdoutError, m\<lparr>sessions := AList.update sid t2 (sessions m),
                          history := AList.update sid [] (history m),
                          metadata := AList.update sid \<lparr>name = nm', created_at = now\<rparr> (metadata m)\<rparr>)
                   | Printed \<Rightarrow>
                       (Return sid, m\<lparr>sessions := AList.update sid t2 (sessions m),
                          history := AList.update sid [] (history m),
                          metadata := AList.update sid \<lparr>name = nm', created_at = now\<rparr> (metadata m)\<rparr>))))"
    unfolding create_session_def Let_def nm'_def lp_def t_def
    by (simp cong: prod.case_cong result.case_cong print_outcome.case_cong)
  obtain r1 t1 where s: "start outcome evs0 t = (r1, t1)" by (cases "start outcome evs0 t")
  show ?thesis
  proof (cases r1)
    case (Raise e)
    then have "create_session sid nm c r cmd now outcome evs0 evs1 evs2 printed m = (Raise e, m)"
      unfolding unf s by simp
    then show ?thesis by blast
  next
    case R1: (Return u)
    obtain r2 t2 where p: "perform_startup_cleanup evs1 evs2 t1 = (r2, t2)"
      by (cases "perform_startup_cleanup evs1 evs2 t1")
    show ?thesis
    proof (cases r2)
      case (Raise e)
      then have "create_session sid nm c r cmd now outcome evs0 evs1 evs2 printed m = (Raise e, m)"
        unfolding unf s using R1 p by simp
      then show ?thesis by blast
    next
      case R2: (Return u2)
      have "create_session sid nm c r cmd now outcome evs0 evs1 evs2 printed m =
          ((case printed of PrintRaises \<Rightarrow> Raise StdoutError | Printed \<Rightarrow> Return sid),
           m\<lparr>sessions := AList.update sid t2 (sessions m),
             history := AList.update sid [] (history m),
             metadata := AList.update sid \<lparr>name = nm', created_at = now\<rparr> (metadata m)\<rparr>)"
        unfolding unf s using R1 R2 p by (cases printed) simp_all
      then show ?thesis by blast
    qed
  qed
qed

lemma create_session_inv:
  "registry_inv m \<Longrightarrow>
   registry_inv (snd (create_session sid nm c r cmd now outcome evs0 evs1 evs2 printed m))"
proof -
  assume inv: "registry_inv m"
  from create_session_cases [of sid nm c r cmd now outcome evs0 evs1 evs2 printed m] show ?thesis
  proof
    assume "\<exists>e. create_session sid nm c r cmd now outcome evs0 evs1 evs2 printed m = (Raise e, m)"
    then obtain e where "create_session sid nm c r cmd now outcome evs0 evs1 evs2 printed m = (Raise e, m)"
      by blast
    then show ?thesis using inv by simp
  next
    assume "\<exists>t meta. create_session sid nm c r cmd now outcome evs0 evs1 evs2 printed m =
      ((case printed of PrintRaises \<Rightarrow> Raise StdoutError | Printed \<Rightarrow> Return sid), m\<lparr>sessions := AList.update sid t (sessions m),
                      history := AList.update sid [] (history m),
                      metadata := AList.update sid meta (metadata m)\<rparr>)"
    then obtain t meta where r: "create_session sid nm c r cmd now outcome evs0 evs1 evs2 printed m =
      ((case printed of PrintRaises \<Rightarrow> Raise StdoutError | Printed \<Rightarrow> Return sid), m\<lparr>sessions := AList.update sid t (sessions m),
                      history := AList.update sid [] (history m),
                      metadata := AList.update sid meta (metadata m)\<rparr>)" by blast
    show ?thesis using inv unfolding r registry_inv_def
      by (simp add: dom_update distinct_update del: insert_iff)
  qed
qed

lemma update_existing_keys:
  "map_of al k = Some v \<Longrightarrow> fst ` set (AList.update k v' al) = fst ` set al"
proof -
  assume "map_of al k = Some v"
  then have "(k, v) \<in> set al" by (rule map_of_SomeD)
  then have "k \<in> fst ` set al" by force
  then show ?thesis by (auto simp: dom_update)
qed

lemma record_command_cases:
  "record_command i cmd now m = m \<or>
   (\<exists>k h h'. map_of (history m) k = Some h \<and>
      record_command i cmd now m = m\<lparr>history := AList.update k h' (history m)\<rparr>)"
  by (auto simp: record_command_def split: option.splits)

lemma record_command_inv:
  "registry_inv m \<Longrightarrow> registry_inv (record_command i cmd now m)"
proof -
  assume inv: "registry_inv m"
  from record_command_cases [of i cmd now m] show ?thesis
  proof
    assume "record_command i cmd now m = m"
    then show ?thesis using inv by simp
  next
    assume "\<exists>k h h'. map_of (history m) k = Some h \<and>
      record_command i cmd now m = m\<lparr>history := AList.update k h' (history m)\<rparr>"
    then obtain k h h' where k: "map_of (history m) k = Some h"
      and r: "record_command i cmd now m = m\<lparr>history := AList.update k h' (history m)\<rparr>"
      by blast
    have "fst ` set (AList.update k h' (history m)) = fst ` set (history m)"
      using k by (rule update_existing_keys)
    then show ?thesis using inv unfolding r registry_inv_def
      by (simp add: distinct_update)
  qed
qed

lemma kill_session_cases:
  "kill_session i m = (False, m) \<or>
   (\<exists>sid. resolve_id i m = Some sid \<and> has_key sid (sessions m) \<and>
      kill_session i m =
        (True, m\<lparr>sessions := AList.delete sid (sessions m),
                  history := AList.delete sid (history m),
                  metadata := AList.delete sid (metadata m)\<rparr>))"
  by (auto simp: kill_session_def Let_def split: option.splits)

lemma keys_delete: "fst ` set (AList.delete k al) = fst ` set al - {k}"
  by (induction al) auto

lemma kill_session_inv:
  "registry_inv m \<Longrightarrow> registry_inv (snd (kill_session i m))"
proof -
  assume inv: "registry_inv m"
  from kill_session_cases [of i m] show ?thesis
  proof
    assume "kill_session i m = (False, m)"
    then show ?thesis using inv by simp
  next
    assume "\<exists>sid. resolve_id i m = Some sid \<and> has_key sid (sessions m) \<and>
      kill_session i m =
        (True, m\<lparr>sessions := AList.delete sid (sessions m),
                  history := AList.delete sid (history m),
                  metadata := AList.delete sid (metadata m)\<rparr>)"
    then obtain sid where r: "kill_session i m =
        (True, m\<lparr>sessions := AList.delete sid (sessions m),
                  history := AList.delete sid (history m),
                  metadata := AList.delete sid (metadata m)\<rparr>)" by blast
    show ?thesis using inv unfolding r registry_inv_def
      by (simp add: keys_delete distinct_delete)
  qed
qed

lemma registry_reachable_inv: "registry_reachable m \<Longrightarrow> registry_inv m"
proof (induction rule: registry_reachable.induct)
  case rr_init
  show ?case by (simp add: registry_inv_def SessionManager_init_def)
next
  case (rr_create m sid nm c r cmd now outcome evs0 evs1 evs2 printed)
  then show ?case by (simp add: create_session_inv)
next
  case (rr_record m i cmd now)
  then show ?case by (simp add: record_command_inv)
next
  case (rr_kill m i)
  then show ?case by (simp add: kill_session_inv)
next
  case (rr_cleanup m)
  show ?case by (simp add: registry_inv_def cleanup_all_def)
qed

lemma find_first:
  "find P xs = Some x \<Longrightarrow> \<exists>pre post. xs = pre @ x # post \<and> P x \<and> (\<forall>y \<in> set pre. \<not> P y)"
proof (induction xs)
  case Nil
  then show ?case by simp
next
  case (Cons a xs)
  show ?case
  proof (cases "P a")
    case True
    then have "a = x" using Cons.prems by simp
    then have "a # xs = [] @ x # xs \<and> P x \<and> (\<forall>y \<in> set []. \<not> P y)" using True by simp
    then show ?thesis by blast
  next
    case False
    then have "find P xs = Some x" using Cons.prems by simp
    from Cons.IH [OF this] obtain pre post where
      "xs = pre @ x # post" "P x" "\<forall>y \<in> set pre. \<not> P y" by blast
    then have "a # xs = (a # pre) @ x # post \<and> P x \<and> (\<forall>y \<in> set (a # pre). \<not> P y)"
      using False by simp
    then show ?thesis by blast
  qed
qed

lemma has_key_map_of: "has_key k d \<longleftrightarrow> map_of d k \<noteq> None"
  by (simp add: has_key_def map_of_eq_None_iff)




text \<open>
  C7. \<open>_resolve_id\<close> answers an identifier that is a session id with that id, whatever
  the names are; otherwise it answers the id of the first metadata entry, in insertion
  order, whose name is the identifier, and \<open>None\<close> when no name matches. \<open>get_session\<close>,
  which repeats the lookup, returns the session of the resolved id.
\<close>

theorem resolution_order:
  "(has_key i (sessions m) \<longrightarrow> resolve_id i m = Some i) \<and>
   (\<not> has_key i (sessions m) \<longrightarrow>
      resolve_id i m = map_option fst (find (\<lambda>(sid, meta). name meta = i) (metadata m))) \<and>
   (\<not> has_key i (sessions m) \<and> resolve_id i m = Some k \<longrightarrow>
      (\<exists>pre meta post. metadata m = pre @ (k, meta) # post \<and> name meta = i \<and>
         (\<forall>(k', meta') \<in> set pre. name meta' \<noteq> i))) \<and>
   (resolve_id i m = None \<longrightarrow> (\<forall>(k', meta') \<in> set (metadata m). name meta' \<noteq> i)) \<and>
   (registry_reachable m \<longrightarrow>
      get_session i m =
        Return (case resolve_id i m of None \<Rightarrow> None | Some k \<Rightarrow> map_of (sessions m) k))"
proof -
  let ?P = "\<lambda>(sid, meta). name meta = i"
  have a: "has_key i (sessions m) \<longrightarrow> resolve_id i m = Some i"
    by (simp add: resolve_id_def)
  have b: "\<not> has_key i (sessions m) \<longrightarrow>
      resolve_id i m = map_option fst (find ?P (metadata m))"
    by (auto simp: resolve_id_def split: option.splits)
  have c: "\<not> has_key i (sessions m) \<and> resolve_id i m = Some k \<longrightarrow>
      (\<exists>pre meta post. metadata m = pre @ (k, meta) # post \<and> name meta = i \<and>
         (\<forall>(k', meta') \<in> set pre. name meta' \<noteq> i))"
  proof
    assume h: "\<not> has_key i (sessions m) \<and> resolve_id i m = Some k"
    then obtain meta where f: "find ?P (metadata m) = Some (k, meta)"
      by (auto simp: resolve_id_def split: option.splits)
    from find_first [OF f] obtain pre post where
      "metadata m = pre @ (k, meta) # post" "?P (k, meta)" "\<forall>y \<in> set pre. \<not> ?P y" by blast
    then have "metadata m = pre @ (k, meta) # post \<and> name meta = i \<and>
         (\<forall>(k', meta') \<in> set pre. name meta' \<noteq> i)" by auto
    then show "\<exists>pre meta post. metadata m = pre @ (k, meta) # post \<and> name meta = i \<and>
         (\<forall>(k', meta') \<in> set pre. name meta' \<noteq> i)" by blast
  qed
  have d: "resolve_id i m = None \<longrightarrow> (\<forall>(k', meta') \<in> set (metadata m). name meta' \<noteq> i)"
    by (auto simp: resolve_id_def find_None_iff split: option.splits if_splits)
  have e: "registry_reachable m \<longrightarrow>
      get_session i m =
        Return (case resolve_id i m of None \<Rightarrow> None | Some k \<Rightarrow> map_of (sessions m) k)"
  proof
    assume "registry_reachable m"
    then have inv: "fst ` set (sessions m) = fst ` set (metadata m)"
      using registry_reachable_inv [of m] by (simp add: registry_inv_def)
    show "get_session i m =
        Return (case resolve_id i m of None \<Rightarrow> None | Some k \<Rightarrow> map_of (sessions m) k)"
    proof (cases "map_of (sessions m) i")
      case (Some t)
      then show ?thesis by (simp add: get_session_def resolve_id_def has_key_map_of)
    next
      case None
      show ?thesis
      proof (cases "find ?P (metadata m)")
        case N: None
        then show ?thesis using None
          by (simp add: get_session_def resolve_id_def has_key_map_of)
      next
        case (Some x)
        obtain k meta where x: "x = (k, meta)" by (cases x)
        have "(k, meta) \<in> set (metadata m)"
          using Some x find_first [of ?P "metadata m" x] by auto
        then have "k \<in> fst ` set (sessions m)" using inv by force
        then obtain t where "map_of (sessions m) k = Some t"
          using has_key_map_of [of k "sessions m"] by (auto simp: has_key_def)
        then show ?thesis using None Some x
          by (simp add: get_session_def resolve_id_def has_key_map_of)
      qed
    qed
  qed
  show ?thesis using a b c d e by blast
qed

theorem resolution_order_witness:
  "registry_reachable (snd (create_session ''d'' (Some ''b'') 120 30 None 0 SpawnOk [] [] [] Printed (snd (create_session ''c'' (Some ''x'') 120 30 None 0 SpawnOk [] [] [] Printed (snd (create_session ''b'' (Some ''x'') 120 30 None 0 SpawnOk [] [] [] Printed SessionManager_init)))))) \<and>
   has_key ''b'' (sessions (snd (create_session ''d'' (Some ''b'') 120 30 None 0 SpawnOk [] [] [] Printed (snd (create_session ''c'' (Some ''x'') 120 30 None 0 SpawnOk [] [] [] Printed (snd (create_session ''b'' (Some ''x'') 120 30 None 0 SpawnOk [] [] [] Printed SessionManager_init))))))) \<and> resolve_id ''b'' (snd (create_session ''d'' (Some ''b'') 120 30 None 0 SpawnOk [] [] [] Printed (snd (create_session ''c'' (Some ''x'') 120 30 None 0 SpawnOk [] [] [] Printed (snd (create_session ''b'' (Some ''x'') 120 30 None 0 SpawnOk [] [] [] Printed SessionManager_init)))))) = Some ''b'' \<and>
   \<not> has_key ''x'' (sessions (snd (create_session ''d'' (Some ''b'') 120 30 None 0 SpawnOk [] [] [] Printed (snd (create_session ''c'' (Some ''x'') 120 30 None 0 SpawnOk [] [] [] Printed (snd (create_session ''b'' (Some ''x'') 120 30 None 0 SpawnOk [] [] [] Printed SessionManager_init))))))) \<and> resolve_id ''x'' (snd (create_session ''d'' (Some ''b'') 120 30 None 0 SpawnOk [] [] [] Printed (snd (create_session ''c'' (Some ''x'') 120 30 None 0 SpawnOk [] [] [] Printed (snd (create_session ''b'' (Some ''x'') 120 30 None 0 SpawnOk [] [] [] Printed SessionManager_init)))))) = Some ''b'' \<and>
   resolve_id ''nope'' (snd (create_session ''d'' (Some ''b'') 120 30 None 0 SpawnOk [] [] [] Printed (snd (create_session ''c'' (Some ''x'') 120 30 None 0 SpawnOk [] [] [] Printed (snd (create_session ''b'' (Some ''x'') 120 30 None 0 SpawnOk [] [] [] Printed SessionManager_init)))))) = None \<and>
   get_session ''nope'' (snd (create_session ''d'' (Some ''b'') 120 30 None 0 SpawnOk [] [] [] Printed (snd (create_session ''c'' (Some ''x'') 120 30 None 0 SpawnOk [] [] [] Printed (snd (create_session ''b'' (Some ''x'') 120 30 None 0 SpawnOk [] [] [] Printed SessionManager_init)))))) = Return None \<and>
   get_session ''x'' (snd (create_session ''d'' (Some ''b'') 120 30 None 0 SpawnOk [] [] [] Printed (snd (create_session ''c'' (Some ''x'') 120 30 None 0 SpawnOk [] [] [] Printed (snd (create_session ''b'' (Some ''x'') 120 30 None 0 SpawnOk [] [] [] Printed SessionManager_init)))))) = Return (map_of (sessions (snd (create_session ''d'' (Some ''b'') 120 30 None 0 SpawnOk [] [] [] Printed (snd (create_session ''c'' (Some ''x'') 120 30 None 0 SpawnOk [] [] [] Printed (snd (create_session ''b'' (Some ''x'') 120 30 None 0 SpawnOk [] [] [] Printed SessionManager_init))))))) ''b'') \<and>
   get_session ''b'' (snd (create_session ''d'' (Some ''b'') 120 30 None 0 SpawnOk [] [] [] Printed (snd (create_session ''c'' (Some ''x'') 120 30 None 0 SpawnOk [] [] [] Printed (snd (create_session ''b'' (Some ''x'') 120 30 None 0 SpawnOk [] [] [] Printed SessionManager_init)))))) = Return (map_of (sessions (snd (create_session ''d'' (Some ''b'') 120 30 None 0 SpawnOk [] [] [] Printed (snd (create_session ''c'' (Some ''x'') 120 30 None 0 SpawnOk [] [] [] Printed (snd (create_session ''b'' (Some ''x'') 120 30 None 0 SpawnOk [] [] [] Printed SessionManager_init))))))) ''b'')"
proof -
  have r: "registry_reachable (snd (create_session ''d'' (Some ''b'') 120 30 None 0 SpawnOk [] [] [] Printed (snd (create_session ''c'' (Some ''x'') 120 30 None 0 SpawnOk [] [] [] Printed (snd (create_session ''b'' (Some ''x'') 120 30 None 0 SpawnOk [] [] [] Printed SessionManager_init))))))"
    by (intro rr_create rr_init)
  have k: "map fst (sessions (snd (create_session ''d'' (Some ''b'') 120 30 None 0 SpawnOk [] [] [] Printed (snd (create_session ''c'' (Some ''x'') 120 30 None 0 SpawnOk [] [] [] Printed (snd (create_session ''b'' (Some ''x'') 120 30 None 0 SpawnOk [] [] [] Printed SessionManager_init))))))) = [''b'', ''c'', ''d'']"
    by (simp add: create_session_def Let_def start_def TerminalAPI_init_def perform_startup_cleanup_def read_output_loop_def read_output_def write_text_def drain_join_def drain_clear_def truthy_def SessionManager_init_def default_shell_command_def)
  have md: "metadata (snd (create_session ''d'' (Some ''b'') 120 30 None 0 SpawnOk [] [] [] Printed (snd (create_session ''c'' (Some ''x'') 120 30 None 0 SpawnOk [] [] [] Printed (snd (create_session ''b'' (Some ''x'') 120 30 None 0 SpawnOk [] [] [] Printed SessionManager_init)))))) = [(''b'', \<lparr>name = ''x'', created_at = 0\<rparr>),
      (''c'', \<lparr>name = ''x'', created_at = 0\<rparr>), (''d'', \<lparr>name = ''b'', created_at = 0\<rparr>)]"
    by (simp add: create_session_def Let_def start_def TerminalAPI_init_def perform_startup_cleanup_def read_output_loop_def read_output_def write_text_def drain_join_def drain_clear_def truthy_def SessionManager_init_def default_shell_command_def)
  have rb: "resolve_id ''b'' (snd (create_session ''d'' (Some ''b'') 120 30 None 0 SpawnOk [] [] [] Printed (snd (create_session ''c'' (Some ''x'') 120 30 None 0 SpawnOk [] [] [] Printed (snd (create_session ''b'' (Some ''x'') 120 30 None 0 SpawnOk [] [] [] Printed SessionManager_init)))))) = Some ''b''"
    by (simp add: resolve_id_def has_key_def k md)
  have rx: "resolve_id ''x'' (snd (create_session ''d'' (Some ''b'') 120 30 None 0 SpawnOk [] [] [] Printed (snd (create_session ''c'' (Some ''x'') 120 30 None 0 SpawnOk [] [] [] Printed (snd (create_session ''b'' (Some ''x'') 120 30 None 0 SpawnOk [] [] [] Printed SessionManager_init)))))) = Some ''b''"
    by (simp add: resolve_id_def has_key_def k md)
  have rn: "resolve_id ''nope'' (snd (create_session ''d'' (Some ''b'') 120 30 None 0 SpawnOk [] [] [] Printed (snd (create_session ''c'' (Some ''x'') 120 30 None 0 SpawnOk [] [] [] Printed (snd (create_session ''b'' (Some ''x'') 120 30 None 0 SpawnOk [] [] [] Printed SessionManager_init)))))) = None"
    by (simp add: resolve_id_def has_key_def k md)
  have hb: "has_key ''b'' (sessions (snd (create_session ''d'' (Some ''b'') 120 30 None 0 SpawnOk [] [] [] Printed (snd (create_session ''c'' (Some ''x'') 120 30 None 0 SpawnOk [] [] [] Printed (snd (create_session ''b'' (Some ''x'') 120 30 None 0 SpawnOk [] [] [] Printed SessionManager_init)))))))"
    by (simp add: has_key_def k)
  have hx: "\<not> has_key ''x'' (sessions (snd (create_session ''d'' (Some ''b'') 120 30 None 0 SpawnOk [] [] [] Printed (snd (create_session ''c'' (Some ''x'') 120 30 None 0 SpawnOk [] [] [] Printed (snd (create_session ''b'' (Some ''x'') 120 30 None 0 SpawnOk [] [] [] Printed SessionManager_init)))))))"
    by (simp add: has_key_def k)
  show ?thesis
    using resolution_order [where m = "snd (create_session ''d'' (Some ''b'') 120 30 None 0 SpawnOk [] [] [] Printed (snd (create_session ''c'' (Some ''x'') 120 30 None 0 SpawnOk [] [] [] Printed (snd (create_session ''b'' (Some ''x'') 120 30 None 0 SpawnOk [] [] [] Printed SessionManager_init)))))" and i = "''b''"]
          resolution_order [where m = "snd (create_session ''d'' (Some ''b'') 120 30 None 0 SpawnOk [] [] [] Printed (snd (create_session ''c'' (Some ''x'') 120 30 None 0 SpawnOk [] [] [] Printed (snd (create_session ''b'' (Some ''x'') 120 30 None 0 SpawnOk [] [] [] Printed SessionManager_init)))))" and i = "''x''"]
          resolution_order [where m = "snd (create_session ''d'' (Some ''b'') 120 30 None 0 SpawnOk [] [] [] Printed (snd (create_session ''c'' (Some ''x'') 120 30 None 0 SpawnOk [] [] [] Printed (snd (create_session ''b'' (Some ''x'') 120 30 None 0 SpawnOk [] [] [] Printed SessionManager_init)))))" and i = "''nope''"]
          r rb rx rn hb hx
    by simp
qed

text \<open>
  C2. For an identifier that resolves to no session \<open>get_history\<close> returns the empty
  list, never \<open>None\<close>, so the endpoint of the server answers with an empty history and
  not with its 404: the same answer as for a session that has run no command.
\<close>

theorem history_of_unknown_session:
  "resolve_id ''ghost'' SessionManager_init = None \<and>
   get_history ''ghost'' SessionManager_init = Some [] \<and>
   server_get_history ''ghost'' SessionManager_init = Inr [] \<and>
   resolve_id ''s1'' (snd (create_session ''s1'' (Some ''a'') 120 30 None 0 SpawnOk [] [] [] Printed SessionManager_init)) = Some ''s1'' \<and>
   resolve_id ''ghost'' (snd (create_session ''s1'' (Some ''a'') 120 30 None 0 SpawnOk [] [] [] Printed SessionManager_init)) = None \<and>
   server_get_history ''s1'' (snd (create_session ''s1'' (Some ''a'') 120 30 None 0 SpawnOk [] [] [] Printed SessionManager_init)) = Inr [] \<and>
   server_get_history ''ghost'' (snd (create_session ''s1'' (Some ''a'') 120 30 None 0 SpawnOk [] [] [] Printed SessionManager_init)) = server_get_history ''s1'' (snd (create_session ''s1'' (Some ''a'') 120 30 None 0 SpawnOk [] [] [] Printed SessionManager_init))"
proof -
  have k: "map fst (sessions (snd (create_session ''s1'' (Some ''a'') 120 30 None 0 SpawnOk [] [] [] Printed SessionManager_init))) = [''s1'']"
    by (simp add: create_session_def Let_def start_def TerminalAPI_init_def perform_startup_cleanup_def read_output_loop_def read_output_def write_text_def drain_join_def drain_clear_def truthy_def SessionManager_init_def default_shell_command_def)
  have h: "history (snd (create_session ''s1'' (Some ''a'') 120 30 None 0 SpawnOk [] [] [] Printed SessionManager_init)) = [(''s1'', [])]"
    by (simp add: create_session_def Let_def start_def TerminalAPI_init_def perform_startup_cleanup_def read_output_loop_def read_output_def write_text_def drain_join_def drain_clear_def truthy_def SessionManager_init_def default_shell_command_def)
  have md: "metadata (snd (create_session ''s1'' (Some ''a'') 120 30 None 0 SpawnOk [] [] [] Printed SessionManager_init)) = [(''s1'', \<lparr>name = ''a'', created_at = 0\<rparr>)]"
    by (simp add: create_session_def Let_def start_def TerminalAPI_init_def perform_startup_cleanup_def read_output_loop_def read_output_def write_text_def drain_join_def drain_clear_def truthy_def SessionManager_init_def default_shell_command_def)
  have r0: "resolve_id ''ghost'' SessionManager_init = None"
    by (simp add: resolve_id_def has_key_def SessionManager_init_def)
  have r1: "resolve_id ''s1'' (snd (create_session ''s1'' (Some ''a'') 120 30 None 0 SpawnOk [] [] [] Printed SessionManager_init)) = Some ''s1''"
    by (simp add: resolve_id_def has_key_def k md)
  have rg: "resolve_id ''ghost'' (snd (create_session ''s1'' (Some ''a'') 120 30 None 0 SpawnOk [] [] [] Printed SessionManager_init)) = None"
    by (simp add: resolve_id_def has_key_def k md)
  show ?thesis
    by (simp add: server_get_history_def get_history_def r0 r1 rg h)
qed

section \<open>Drains next to the reader thread\<close>











section \<open>The output filter\<close>

text \<open>
  C1. An OSC sequence that ends with \<open>ESC \\<close> passes the filter unchanged: the first
  OSC pattern asks for BEL, and the second asks for \<open>ESC\<close> and two backslashes, which
  removes the sequence only when a second backslash follows it. Apart from that, the
  filter is one pass of removals in a fixed order, so the removal of a control character
  at the end can join the text around it into a Device-Attributes response that the
  earlier pass did not see.
\<close>

theorem osc_with_string_terminator_is_kept:
  "filter_output [ESC, CHR '']'', CHR ''0'', CHR '';'', CHR ''t'', ESC, BSL] = [ESC, CHR '']'', CHR ''0'', CHR '';'', CHR ''t'', ESC, BSL] \<and>
   [ESC, CHR '']'', CHR ''0'', CHR '';'', CHR ''t'', ESC, BSL] \<in> lang OSC_ST_intended \<and>
   occurs OSC_ST_intended (filter_output [ESC, CHR '']'', CHR ''0'', CHR '';'', CHR ''t'', ESC, BSL]) \<and>
   filter_output ([ESC, CHR '']'', CHR ''0'', CHR '';'', CHR ''t'', ESC, BSL] @ [BSL]) = [] \<and>
   filter_output [ESC, CHR ''['', CHR ''?'', CHR ''1'', ETB, CHR ''c''] =
     [ESC, CHR ''['', CHR ''?'', CHR ''1'', CHR ''c''] \<and>
   [ESC, CHR ''['', CHR ''?'', CHR ''1'', CHR ''c''] \<in> lang DA_pattern"
proof -
  have f: "filter_output [ESC, CHR '']'', CHR ''0'', CHR '';'', CHR ''t'', ESC, BSL] = [ESC, CHR '']'', CHR ''0'', CHR '';'', CHR ''t'', ESC, BSL]"
    by (simp add: filter_output_def re_sub_def replace_empty_def match_literal_def DA_pattern_def CPR_pattern_def mode_pattern_def OSC_BEL_pattern_def OSC_ST_pattern_def digit_def)
  have "[CHR ''0'', CHR '';'', CHR ''t'', ESC, BSL] = [CHR ''0'', CHR '';'', CHR ''t''] @ [ESC, BSL] \<and>
      set [CHR ''0'', CHR '';'', CHR ''t''] \<subseteq> - {ESC} \<and> [ESC, BSL] \<in> lang [Lit [ESC, BSL]]"
    by simp
  then have "\<exists>u v. [CHR ''0'', CHR '';'', CHR ''t'', ESC, BSL] = u @ v \<and> set u \<subseteq> - {ESC} \<and>
      v \<in> lang [Lit [ESC, BSL]]"
    by blast
  then have l: "[ESC, CHR '']'', CHR ''0'', CHR '';'', CHR ''t'', ESC, BSL] \<in> lang OSC_ST_intended"
    by (simp add: OSC_ST_intended_def)
  have "[ESC, CHR '']'', CHR ''0'', CHR '';'', CHR ''t'', ESC, BSL] = [] @ [ESC, CHR '']'', CHR ''0'', CHR '';'', CHR ''t'', ESC, BSL] @ [] \<and> [ESC, CHR '']'', CHR ''0'', CHR '';'', CHR ''t'', ESC, BSL] \<in> lang OSC_ST_intended"
    using l by simp
  then have o: "occurs OSC_ST_intended [ESC, CHR '']'', CHR ''0'', CHR '';'', CHR ''t'', ESC, BSL]"
    unfolding occurs_def by blast
  have g: "filter_output ([ESC, CHR '']'', CHR ''0'', CHR '';'', CHR ''t'', ESC, BSL] @ [BSL]) = []"
    by (simp add: filter_output_def re_sub_def replace_empty_def match_literal_def DA_pattern_def CPR_pattern_def mode_pattern_def OSC_BEL_pattern_def OSC_ST_pattern_def digit_def)
  have j: "filter_output [ESC, CHR ''['', CHR ''?'', CHR ''1'', ETB, CHR ''c''] =
     [ESC, CHR ''['', CHR ''?'', CHR ''1'', CHR ''c'']"
    by (simp add: filter_output_def re_sub_def replace_empty_def match_literal_def DA_pattern_def CPR_pattern_def mode_pattern_def OSC_BEL_pattern_def OSC_ST_pattern_def digit_def)
  have "[CHR ''1'', CHR ''c''] = [CHR ''1''] @ [CHR ''c''] \<and> [CHR ''1''] \<noteq> [] \<and>
      set [CHR ''1''] \<subseteq> digit \<union> {CHR '';''} \<and> [CHR ''c''] \<in> lang [Lit ''c'']"
    by (simp add: digit_def)
  then have "\<exists>u v. [CHR ''1'', CHR ''c''] = u @ v \<and> u \<noteq> [] \<and>
      set u \<subseteq> digit \<union> {CHR '';''} \<and> v \<in> lang [Lit ''c'']"
    by blast
  then have d: "[ESC, CHR ''['', CHR ''?'', CHR ''1'', CHR ''c''] \<in> lang DA_pattern"
    by (simp add: DA_pattern_def)
  show ?thesis
    using f l o g j d by simp
qed

end
